theory Spec2Isabelle
  imports Main
begin

section \<open>The CalDAV client of src/app/caldav.ts\<close>

text \<open>
  Every operation of the client builds an \<open>options\<close> object, hands it to the HTTP
  collaborator \<open>request(url, options, callback).auth(user, password)\<close> inside the
  executor of a new promise, and settles the promise from the callback. The model keeps
  these three parts apart: the request that is sent, the arguments with which the
  collaborator calls back, and the state in which the promise is left when the callback
  has run. The calls of the logger only observe and are left out, except that their
  argument \<open>body.toString()\<close> is evaluated, which fails on an undefined body.
  The collaborator is taken to call back once for each request.
\<close>

subsection \<open>Requests\<close>

type_synonym URL = string

text \<open>\<open>request.CoreOptions\<close>, with the four fields the client sets. A field that the
  object literal leaves out, or sets to \<open>undefined\<close>, is \<open>None\<close>.\<close>

record options =
  opt_method :: string
  opt_headers :: "(string \<times> string) list option"
  opt_proxy :: "string option"
  opt_body :: "string option"

text \<open>What reaches the collaborator: \<open>request(target, opts, callback).auth(user, pass)\<close>.\<close>

record http_request =
  target :: string
  opts :: options
  auth :: "string \<times> string"

definition header :: "http_request \<Rightarrow> string \<Rightarrow> string option" where
  "header r name = (case opt_headers (opts r) of None \<Rightarrow> None | Some hs \<Rightarrow> map_of hs name)"

subsection \<open>Replies\<close>

text \<open>A value of a response header is a string or an array of strings.\<close>

datatype header_value = Single string | Multiple "string list"

text \<open>\<open>request.RequestResponse\<close>: \<open>statusCode\<close> may be undefined, \<open>headers\<close> is keyed by
  the lower-case header name.\<close>

record response =
  statusCode :: "int option"
  resp_headers :: "(string \<times> header_value) list"

text \<open>The arguments \<open>(error, response, body)\<close> of the callback. \<open>None\<close> is a null or
  undefined argument. The type \<open>'b\<close> is the body as the collaborator delivers it.\<close>

record ('e, 'b) reply =
  error :: "'e option"
  response :: "response option"
  body :: "'b option"

subsection \<open>Promises\<close>

text \<open>A promise settles once: \<open>resolve\<close> and \<open>reject\<close> act on a pending promise only.\<close>

datatype ('a, 'r) promise = Pending | Resolved 'a | Rejected 'r

definition resolve :: "'a \<Rightarrow> ('a, 'r) promise \<Rightarrow> ('a, 'r) promise" where
  "resolve v p = (case p of Pending \<Rightarrow> Resolved v | _ \<Rightarrow> p)"

definition reject :: "'r \<Rightarrow> ('a, 'r) promise \<Rightarrow> ('a, 'r) promise" where
  "reject x p = (case p of Pending \<Rightarrow> Rejected x | _ \<Rightarrow> p)"

text \<open>The two kinds of value the client rejects with: the collaborator's \<open>error\<close>
  argument, passed on as it is, and a string literal.\<close>

datatype 'e reason = Cause 'e | Literal string

text \<open>How the callback ends: it returns, or a property read of an undefined value
  throws a TypeError out of it, or the decoder throws its error out of it. Nothing
  catches either, and the promise keeps the state it had.\<close>

datatype completion = Returned | Threw_TypeError | Threw_Error

text \<open>What a call of an operation does: it throws before any request is sent, or it
  sends one request, and the callback leaves the returned promise in a final state.\<close>

datatype ('a, 'r) call =
  Throws
  | Issued http_request completion "('a, 'r) promise"

text \<open>Truthiness of an optional string and of an optional number.\<close>

definition truthy_string :: "string option \<Rightarrow> bool" where
  "truthy_string s = (case s of None \<Rightarrow> False | Some t \<Rightarrow> t \<noteq> [])"

definition truthy_number :: "int option \<Rightarrow> bool" where
  "truthy_number n = (case n of None \<Rightarrow> False | Some k \<Rightarrow> k \<noteq> 0)"

subsection \<open>The client instance\<close>

record caldav =
  url :: URL
  user :: string
  password :: string
  proxy :: "string option"

definition CalDav :: "URL \<Rightarrow> string \<Rightarrow> string \<Rightarrow> string option \<Rightarrow> caldav" where
  "CalDav u usr pw px = \<lparr>url = u, user = usr, password = pw, proxy = px\<rparr>"

subsection \<open>put\<close>

text \<open>Lines 236 to 244: the options of a PUT. \<open>if (etag)\<close> is a truthiness test.\<close>

definition put_options :: "caldav \<Rightarrow> string \<Rightarrow> string option \<Rightarrow> options" where
  "put_options c event etag =
     (let options = \<lparr>opt_method = ''PUT'', opt_headers = None,
                     opt_proxy = proxy c, opt_body = Some event\<rparr>
      in case etag of
           None \<Rightarrow> options
         | Some e \<Rightarrow> if truthy_string etag
                     then options\<lparr>opt_headers := Some [(''If-Match'', e)]\<rparr>
                     else options)"

text \<open>Lines 250 to 270: the callback of a PUT, run on a pending promise.\<close>

definition put_callback ::
  "('e, 'b) reply \<Rightarrow> completion \<times> (string, 'e reason) promise" where
  "put_callback a =
     (let p = (case error a of None \<Rightarrow> Pending | Some e \<Rightarrow> reject (Cause e) Pending)
      in case body a of
           None \<Rightarrow> (Threw_TypeError, p)
         | Some b \<Rightarrow>
            (case response a of
               None \<Rightarrow> (Threw_TypeError, p)
             | Some r \<Rightarrow>
                 if truthy_number (statusCode r) \<and>
                    (case statusCode r of None \<Rightarrow> False | Some s \<Rightarrow> 200 \<le> s \<and> s < 300)
                 then
                   (case map_of (resp_headers r) ''etag'' of
                      None \<Rightarrow> (Returned, p)
                    | Some (Multiple ts) \<Rightarrow> (Returned, p)
                    | Some (Single tag) \<Rightarrow>
                        if tag \<noteq> [] then (Returned, resolve tag p) else (Returned, p))
                 else (Returned, reject (Literal ''error'') p)))"

text \<open>Lines 235 to 272. \<open>new_URL ics base\<close> stands for \<open>new URL(ics, base)\<close>, which is
  \<open>None\<close> where the constructor throws; \<open>request\<close> is the HTTP collaborator, giving
  the callback arguments for the request it is sent. The second component is the
  instance after the call.\<close>

definition put ::
  "(string \<Rightarrow> URL \<Rightarrow> URL option) \<Rightarrow> (http_request \<Rightarrow> ('e, 'b) reply) \<Rightarrow>
   caldav \<Rightarrow> string \<Rightarrow> string \<Rightarrow> string option \<Rightarrow> (string, 'e reason) call \<times> caldav" where
  "put new_URL request c ics event etag =
     (let options = put_options c event etag
      in case new_URL ics (url c) of
           None \<Rightarrow> (Throws, c)
         | Some putUrl \<Rightarrow>
             (let r = \<lparr>target = putUrl, opts = options, auth = (user c, password c)\<rparr>;
                  (k, p) = put_callback (request r)
              in (Issued r k p, c)))"

subsection \<open>The decoded tree\<close>

text \<open>The XML decoder \<open>handler.xmlToJson(null, body.toString(), null)\<close> is a
  collaborator: the operations take it as the parameter \<open>xmlToJson\<close>, from the body to
  the tree it is decoded to, or to \<open>None\<close> where the decoder throws (its parser
  is strict and rejects a body that is not well-formed XML). The tree is a generic one
  of strings, arrays and objects;
  the cast \<open>json.multistatus as IMultiStatus\<close> checks nothing and leaves the value as
  it is. Reading a key that an object does not have gives undefined, here \<open>None\<close>.\<close>

datatype json = JString string | JArray "json list" | JObject "(string \<times> json) list"

definition property :: "json \<Rightarrow> string \<Rightarrow> json option" where
  "property j k = (case j of JObject kvs \<Rightarrow> map_of kvs k | _ \<Rightarrow> None)"

text \<open>Lines 81 to 91, and the same statements at lines 119 to 129, 159 to 169,
  218 to 228 and 290 to 300: the callback of the four multistatus operations and of
  delete, run on a pending promise. There is no return after \<open>reject(error)\<close>,
  and no \<open>try\<close> around the decoder.\<close>

definition multistatus_callback ::
  "('b \<Rightarrow> json option) \<Rightarrow> ('e, 'b) reply \<Rightarrow>
   completion \<times> (json option, 'e reason) promise" where
  "multistatus_callback xmlToJson a =
     (let p = (case error a of None \<Rightarrow> Pending | Some e \<Rightarrow> reject (Cause e) Pending)
      in case body a of
           None \<Rightarrow> (Threw_TypeError, p)
         | Some b \<Rightarrow>
            (case xmlToJson b of
               None \<Rightarrow> (Threw_Error, p)
             | Some json \<Rightarrow> (Returned, resolve (property json ''multistatus'') p)))"

subsection \<open>Request bodies\<close>

text \<open>A template literal, given by its lines.\<close>

fun join_lines :: "string list \<Rightarrow> string" where
  "join_lines [] = []"
| "join_lines [l] = l"
| "join_lines (l # m # ls) = l @ CHR 0x0A # join_lines (m # ls)"

text \<open>\<open>util.format\<close> for a format string whose placeholders are all \<open>%s\<close> and for
  string arguments: each \<open>%s\<close> is replaced by the next argument, which is not scanned
  again; a \<open>%s\<close> with no argument left stays; arguments left over are appended, each
  after a space.\<close>

fun format :: "string \<Rightarrow> string list \<Rightarrow> string" where
  "format [] args = concat (map (\<lambda>a. CHR 0x20 # a) args)"
| "format [c] args = c # format [] args"
| "format (c # d # cs) args =
     (if c = CHR 0x25 \<and> d = CHR ''s'' then
        (case args of
           [] \<Rightarrow> c # d # format cs []
         | a # as \<Rightarrow> a @ format cs as)
      else c # format (d # cs) args)"

definition getCurrentUserPrincipal_xml :: \<open>string\<close> where
  \<open>getCurrentUserPrincipal_xml = join_lines
     ['''',
      ''        <d:propfind xmlns:d="DAV:">'',
      ''          <d:prop>'',
      ''            <d:current-user-principal />'',
      ''          </d:prop>'',
      ''        </d:propfind>'',
      ''        '']\<close>
definition getCalendarHomeSet_xml :: \<open>string\<close> where
  \<open>getCalendarHomeSet_xml = join_lines
     ['''',
      ''        <d:propfind xmlns:d="DAV:" xmlns:c="urn:ietf:params:xml:ns:caldav">'',
      ''          <d:prop>'',
      ''            <c:calendar-home-set />'',
      ''          </d:prop>'',
      ''        </d:propfind>'',
      ''        '']\<close>
definition getCalendarComponentSet_xml :: \<open>string\<close> where
  \<open>getCalendarComponentSet_xml = join_lines
     ['''',
      ''        <d:propfind xmlns:d="DAV:" xmlns:cs="http://calendarserver.org/ns/" xmlns:c="urn:ietf:params:xml:ns:caldav">'',
      ''          <d:prop>'',
      ''           <d:resourcetype />'',
      ''           <d:displayname />'',
      ''           <cs:getctag />'',
      ''           <c:supported-calendar-component-set />'',
      ''          </d:prop>'',
      ''        </d:propfind>'',
      ''        '']\<close>
definition search_xml :: \<open>string\<close> where
  \<open>search_xml = join_lines
     ['''',
      ''        <c:calendar-query xmlns:d="DAV:" xmlns:c="urn:ietf:params:xml:ns:caldav">'',
      ''          <d:prop>'',
      ''            <d:getetag />'',
      ''            <c:calendar-data />'',
      ''          </d:prop>'',
      ''          <c:filter>'',
      ''            <c:comp-filter name="VCALENDAR">'',
      ''              <c:comp-filter name="VEVENT">'',
      ''                <c:prop-filter name="%s">'',
      ''                  <c:text-match>%s</c:text-match>'',
      ''                </c:prop-filter>'',
      ''              </c:comp-filter>'',
      ''            </c:comp-filter>'',
      ''          </c:filter>'',
      ''        </c:calendar-query>'',
      ''        '']\<close>

subsection \<open>The discovery operations\<close>

text \<open>Lines 60 to 93.\<close>

definition getCurrentUserPrincipal ::
  "('b \<Rightarrow> json option) \<Rightarrow> (http_request \<Rightarrow> ('e, 'b) reply) \<Rightarrow>
   URL \<Rightarrow> string \<Rightarrow> string \<Rightarrow> string option \<Rightarrow> (json option, 'e reason) call" where
  "getCurrentUserPrincipal xmlToJson request u usr pw px =
     (let xml = getCurrentUserPrincipal_xml;
          options = \<lparr>opt_method = ''PROPFIND'',
                     opt_headers = Some [(''Depth'', ''0''), (''Prefer'', ''return-minimal'')],
                     opt_proxy = px, opt_body = Some xml\<rparr>;
          r = \<lparr>target = u, opts = options, auth = (usr, pw)\<rparr>;
          (k, p) = multistatus_callback xmlToJson (request r)
      in Issued r k p)"

text \<open>Lines 98 to 131.\<close>

definition getCalendarHomeSet ::
  "('b \<Rightarrow> json option) \<Rightarrow> (http_request \<Rightarrow> ('e, 'b) reply) \<Rightarrow>
   URL \<Rightarrow> string \<Rightarrow> string \<Rightarrow> string option \<Rightarrow> (json option, 'e reason) call" where
  "getCalendarHomeSet xmlToJson request u usr pw px =
     (let xml = getCalendarHomeSet_xml;
          options = \<lparr>opt_method = ''PROPFIND'',
                     opt_headers = Some [(''Depth'', ''0''), (''Prefer'', ''return-minimal'')],
                     opt_proxy = px, opt_body = Some xml\<rparr>;
          r = \<lparr>target = u, opts = options, auth = (usr, pw)\<rparr>;
          (k, p) = multistatus_callback xmlToJson (request r)
      in Issued r k p)"

text \<open>Lines 136 to 171.\<close>

definition getCalendarComponentSet ::
  "('b \<Rightarrow> json option) \<Rightarrow> (http_request \<Rightarrow> ('e, 'b) reply) \<Rightarrow>
   URL \<Rightarrow> string \<Rightarrow> string \<Rightarrow> string option \<Rightarrow> (json option, 'e reason) call" where
  "getCalendarComponentSet xmlToJson request u usr pw px =
     (let xml = getCalendarComponentSet_xml;
          options = \<lparr>opt_method = ''PROPFIND'',
                     opt_headers = Some [(''Depth'', ''1''), (''Prefer'', ''return-minimal'')],
                     opt_proxy = px, opt_body = Some xml\<rparr>;
          r = \<lparr>target = u, opts = options, auth = (usr, pw)\<rparr>;
          (k, p) = multistatus_callback xmlToJson (request r)
      in Issued r k p)"

subsection \<open>search and delete\<close>

text \<open>Lines 188 to 230. The second component is the instance after the call.\<close>

definition search ::
  "('b \<Rightarrow> json option) \<Rightarrow> (http_request \<Rightarrow> ('e, 'b) reply) \<Rightarrow>
   caldav \<Rightarrow> string \<Rightarrow> string \<Rightarrow> (json option, 'e reason) call \<times> caldav" where
  "search xmlToJson request c field id' =
     (let xml = search_xml;
          options = \<lparr>opt_method = ''REPORT'',
                     opt_headers = Some [(''Depth'', ''1''), (''Prefer'', ''return-minimal'')],
                     opt_proxy = proxy c, opt_body = Some (format xml [field, id'])\<rparr>;
          r = \<lparr>target = url c, opts = options, auth = (user c, password c)\<rparr>;
          (k, p) = multistatus_callback xmlToJson (request r)
      in (Issued r k p, c))"

text \<open>Lines 277 to 302. The options have no body.\<close>

definition delete ::
  "(string \<Rightarrow> URL \<Rightarrow> URL option) \<Rightarrow> ('b \<Rightarrow> json option) \<Rightarrow>
   (http_request \<Rightarrow> ('e, 'b) reply) \<Rightarrow>
   caldav \<Rightarrow> string \<Rightarrow> string \<Rightarrow> (json option, 'e reason) call \<times> caldav" where
  "delete new_URL xmlToJson request c ics etag =
     (let options = \<lparr>opt_method = ''DELETE'',
                     opt_headers = Some [(''If-Match'', etag)],
                     opt_proxy = proxy c, opt_body = None\<rparr>
      in case new_URL ics (url c) of
           None \<Rightarrow> (Throws, c)
         | Some deleteUrl \<Rightarrow>
             (let r = \<lparr>target = deleteUrl, opts = options, auth = (user c, password c)\<rparr>;
                  (k, p) = multistatus_callback xmlToJson (request r)
              in (Issued r k p, c)))"

subsection \<open>Reading a request body\<close>

text \<open>The markup of a body: the text between each \<open><\<close> and the next \<open>>\<close>, in order.
  The second argument is the tag being read, if any.\<close>

fun scan_tags :: "string \<Rightarrow> string option \<Rightarrow> string list" where
  "scan_tags [] cur = []"
| "scan_tags (c # cs) None = (if c = CHR ''<'' then scan_tags cs (Some []) else scan_tags cs None)"
| "scan_tags (c # cs) (Some t) =
     (if c = CHR ''>'' then t # scan_tags cs None else scan_tags cs (Some (t @ [c])))"

subsection \<open>The decoder, as the specification describes it\<close>

text \<open>Modelled from the spec: the XML decoder is the library behind
  \<open>soap.XMLHandler\<close>, which is not part of the repository. Section 6 of the
  specification describes what it yields for a document: a generic nested key/value
  tree mirroring the element structure, where element names become keys, repeated
  sibling elements become sequences, and attributes surface under a conventional
  attribute key. A document is given here by its elements, so the body type \<open>'b\<close> of a
  reply is \<open>xml\<close> wherever this decoder is used.\<close>

datatype xml = Element string "(string \<times> string) list" "xml list" | Text string

fun is_element :: "xml \<Rightarrow> bool" where
  "is_element (Element n as cs) = True"
| "is_element (Text s) = False"

fun name_of :: "xml \<Rightarrow> string" where
  "name_of (Element n as cs) = n"
| "name_of (Text s) = []"

fun text_of :: "xml \<Rightarrow> string" where
  "text_of (Element n as cs) = []"
| "text_of (Text s) = s"

text \<open>Modelled from the spec: repeated sibling elements become sequences. The first
  element of a name is stored as it is, the second turns the entry into a sequence of
  the two, every further one is appended.\<close>

fun add_child :: "string \<Rightarrow> json \<Rightarrow> (string \<times> json) list \<Rightarrow> (string \<times> json) list" where
  "add_child k v [] = [(k, v)]"
| "add_child k v ((k', w) # kvs) =
     (if k = k'
      then (k', (case w of JArray ws \<Rightarrow> JArray (ws @ [v]) | _ \<Rightarrow> JArray [w, v])) # kvs
      else (k', w) # add_child k v kvs)"

definition group_children :: "(string \<times> json) list \<Rightarrow> (string \<times> json) list" where
  "group_children kvs = foldl (\<lambda>acc kv. add_child (fst kv) (snd kv) acc) [] kvs"

text \<open>Modelled from the spec: element names become keys, attributes surface under
  the key \<open>$attributes\<close> (the key of the interface \<open>IComponent\<close>). An element with
  no attribute and no child element stands for its text, as the string fields of the
  data model (\<open>href\<close>, \<open>status\<close>, \<open>displayname\<close>) require.\<close>

fun xml_value :: "xml \<Rightarrow> json" where
  "xml_value (Text s) = JString s"
| "xml_value (Element n as cs) =
     (if as = [] \<and> filter is_element cs = [] then JString (concat (map text_of cs))
      else JObject
        ((if as = [] then []
          else [(''$attributes'', JObject (map (\<lambda>kv. (fst kv, JString (snd kv))) as))])
         @ group_children (map (\<lambda>c. (name_of c, xml_value c)) (filter is_element cs))))"

text \<open>Modelled from the spec: the tree of a document has the root element's name as
  its only key.\<close>

definition xmlToJson_spec :: "xml \<Rightarrow> json" where
  "xmlToJson_spec doc = JObject [(name_of doc, xml_value doc)]"



section \<open>Properties\<close>

subsection \<open>What a call that sent a request is made of\<close>

lemma put_issued:
  assumes "put new_URL request c ics event etag = (Issued r k p, c')"
  shows "opts r = put_options c event etag \<and> put_callback (request r) = (k, p) \<and> c' = c
         \<and> new_URL ics (url c) = Some (target r) \<and> auth r = (user c, password c)"
  using assms by (auto simp: put_def Let_def split: option.splits prod.splits)

lemma getCurrentUserPrincipal_issued:
  assumes "getCurrentUserPrincipal xmlToJson request u usr pw px = Issued r k p"
  shows "r = \<lparr>target = u,
              opts = \<lparr>opt_method = ''PROPFIND'',
                       opt_headers = Some [(''Depth'', ''0''), (''Prefer'', ''return-minimal'')],
                       opt_proxy = px, opt_body = Some getCurrentUserPrincipal_xml\<rparr>,
              auth = (usr, pw)\<rparr>
         \<and> multistatus_callback xmlToJson (request r) = (k, p)"
  using assms by (auto simp: getCurrentUserPrincipal_def Let_def split: prod.splits)

lemma getCalendarHomeSet_issued:
  assumes "getCalendarHomeSet xmlToJson request u usr pw px = Issued r k p"
  shows "r = \<lparr>target = u,
              opts = \<lparr>opt_method = ''PROPFIND'',
                       opt_headers = Some [(''Depth'', ''0''), (''Prefer'', ''return-minimal'')],
                       opt_proxy = px, opt_body = Some getCalendarHomeSet_xml\<rparr>,
              auth = (usr, pw)\<rparr>
         \<and> multistatus_callback xmlToJson (request r) = (k, p)"
  using assms by (auto simp: getCalendarHomeSet_def Let_def split: prod.splits)

lemma getCalendarComponentSet_issued:
  assumes "getCalendarComponentSet xmlToJson request u usr pw px = Issued r k p"
  shows "r = \<lparr>target = u,
              opts = \<lparr>opt_method = ''PROPFIND'',
                       opt_headers = Some [(''Depth'', ''1''), (''Prefer'', ''return-minimal'')],
                       opt_proxy = px, opt_body = Some getCalendarComponentSet_xml\<rparr>,
              auth = (usr, pw)\<rparr>
         \<and> multistatus_callback xmlToJson (request r) = (k, p)"
  using assms by (auto simp: getCalendarComponentSet_def Let_def split: prod.splits)








subsection \<open>put: how the promise settles\<close>

text \<open>C1, as stated, fails. A response with status 404 and one with status 412 leave
  the promise rejected with the same value, the string \<open>error\<close> of line 269, so the
  value does not carry the status code. And a response with status 200 whose ETag
  header is the empty string, a plain string, leaves the promise pending: the test
  \<open>if (tag)\<close> of line 261 is one of truthiness.\<close>

theorem put_reject_value_counterexample:
  "put_callback \<lparr>error = (None :: string option),
                 response = Some \<lparr>statusCode = Some 404, resp_headers = []\<rparr>,
                 body = Some (''''::string)\<rparr> = (Returned, Rejected (Literal ''error''))
   \<and> put_callback \<lparr>error = (None :: string option),
                 response = Some \<lparr>statusCode = Some 412, resp_headers = []\<rparr>,
                 body = Some (''''::string)\<rparr> = (Returned, Rejected (Literal ''error''))
   \<and> put_callback \<lparr>error = (None :: string option),
                 response = Some \<lparr>statusCode = Some 200, resp_headers = [(''etag'', Single '''')]\<rparr>,
                 body = Some (''''::string)\<rparr> = (Returned, Pending)"
  by (simp add: put_callback_def reject_def resolve_def truthy_number_def)

text \<open>C1, amended. For every PUT that sent its request and got a response with a
  status code (no transport error): if the status is in [200,300) and the response
  carries a non-empty plain-string ETag header, the promise resolves with exactly that
  header value; if the status is outside [200,300), the promise rejects with the fixed
  string \<open>error\<close>.\<close>

theorem put_settles:
  assumes "put new_URL request c ics event etag = (Issued r k p, c')"
      and "error (request r) = None"
      and "response (request r) = Some resp"
      and "body (request r) = Some b"
      and "statusCode resp = Some s"
  shows "(200 \<le> s \<and> s < 300 \<longrightarrow>
            (\<forall>t. map_of (resp_headers resp) ''etag'' = Some (Single t) \<and> t \<noteq> [] \<longrightarrow> p = Resolved t))
       \<and> (\<not> (200 \<le> s \<and> s < 300) \<longrightarrow> p = Rejected (Literal ''error''))"
proof -
  from put_issued [OF assms(1)] have kp: "put_callback (request r) = (k, p)" by simp
  show ?thesis
    using kp assms(2-5)
    by (auto simp: put_callback_def resolve_def reject_def truthy_number_def)
qed

text \<open>The two cases of C1 at a server that answers 201 with an ETag, and at one that
  answers 412.\<close>

theorem put_settles_witness:
  "put (\<lambda>ics base. Some (base @ ics))
       (\<lambda>r. \<lparr>error = (None :: string option),
              response = Some \<lparr>statusCode = Some 201,
                                resp_headers = [(''etag'', Single ''abc123'')]\<rparr>,
              body = Some (''''::string)\<rparr>)
       (CalDav ''https://dav.example/cal/'' ''alice'' ''secret'' None)
       ''new.ics'' ''BEGIN:VCALENDAR'' None
     = (Issued \<lparr>target = ''https://dav.example/cal/new.ics'',
                opts = \<lparr>opt_method = ''PUT'', opt_headers = None, opt_proxy = None,
                         opt_body = Some ''BEGIN:VCALENDAR''\<rparr>,
                auth = (''alice'', ''secret'')\<rparr> Returned (Resolved ''abc123''),
        CalDav ''https://dav.example/cal/'' ''alice'' ''secret'' None)
   \<and> put (\<lambda>ics base. Some (base @ ics))
       (\<lambda>r. \<lparr>error = (None :: string option),
              response = Some \<lparr>statusCode = Some 412, resp_headers = []\<rparr>,
              body = Some (''''::string)\<rparr>)
       (CalDav ''https://dav.example/cal/'' ''alice'' ''secret'' None)
       ''new.ics'' ''BEGIN:VCALENDAR'' (Some ''old'')
     = (Issued \<lparr>target = ''https://dav.example/cal/new.ics'',
                opts = \<lparr>opt_method = ''PUT'', opt_headers = Some [(''If-Match'', ''old'')],
                         opt_proxy = None, opt_body = Some ''BEGIN:VCALENDAR''\<rparr>,
                auth = (''alice'', ''secret'')\<rparr> Returned (Rejected (Literal ''error'')),
        CalDav ''https://dav.example/cal/'' ''alice'' ''secret'' None)"
  (is "?put1 = (Issued ?r1 Returned (Resolved ?t), ?c) \<and> ?put2 = (Issued ?r2 Returned ?rej, ?c)")
proof -
  obtain k1 p1 where h1: "?put1 = (Issued ?r1 k1 p1, ?c)" and k1: "k1 = Returned"
    by (simp add: put_def put_options_def put_callback_def CalDav_def truthy_number_def
        truthy_string_def resolve_def)
  obtain k2 p2 where h2: "?put2 = (Issued ?r2 k2 p2, ?c)" and k2: "k2 = Returned"
    by (simp add: put_def put_options_def put_callback_def CalDav_def truthy_number_def
        truthy_string_def reject_def)
  from put_settles [OF h1, of "\<lparr>statusCode = Some 201, resp_headers = [(''etag'', Single ''abc123'')]\<rparr>" "''''" 201]
  have "p1 = Resolved ?t" by simp
  moreover
  from put_settles [OF h2, of "\<lparr>statusCode = Some 412, resp_headers = []\<rparr>" "''''" 412]
  have "p2 = ?rej" by simp
  ultimately show ?thesis using h1 h2 k1 k2 by simp
qed

text \<open>C2. For every PUT that sent its request and got a response (no transport
  error) whose status is in [200,300) and whose ETag header is absent or not a plain
  string, the promise is left pending: it is neither resolved nor rejected.\<close>

theorem put_never_settles:
  assumes "put new_URL request c ics event etag = (Issued r k p, c')"
      and "error (request r) = None"
      and "response (request r) = Some resp"
      and "statusCode resp = Some s" and "200 \<le> s" and "s < 300"
      and "map_of (resp_headers resp) ''etag'' = None
           \<or> (\<exists>ts. map_of (resp_headers resp) ''etag'' = Some (Multiple ts))"
  shows "p = Pending"
proof -
  from put_issued [OF assms(1)] have kp: "put_callback (request r) = (k, p)" by simp
  show ?thesis
    using kp assms(2-)
    by (auto simp: put_callback_def truthy_number_def split: option.splits)
qed

text \<open>C2 at a server that answers 204 without an ETag, and at one that answers 200
  with an ETag header of two values.\<close>

theorem put_never_settles_witness:
  "put (\<lambda>ics base. Some (base @ ics))
       (\<lambda>r. \<lparr>error = (None :: string option),
              response = Some \<lparr>statusCode = Some 204, resp_headers = []\<rparr>,
              body = Some (''''::string)\<rparr>)
       (CalDav ''https://dav.example/cal/'' ''alice'' ''secret'' None)
       ''new.ics'' ''BEGIN:VCALENDAR'' None
     = (Issued \<lparr>target = ''https://dav.example/cal/new.ics'',
                opts = \<lparr>opt_method = ''PUT'', opt_headers = None, opt_proxy = None,
                         opt_body = Some ''BEGIN:VCALENDAR''\<rparr>,
                auth = (''alice'', ''secret'')\<rparr> Returned Pending,
        CalDav ''https://dav.example/cal/'' ''alice'' ''secret'' None)
   \<and> put (\<lambda>ics base. Some (base @ ics))
       (\<lambda>r. \<lparr>error = (None :: string option),
              response = Some \<lparr>statusCode = Some 200,
                                resp_headers = [(''etag'', Multiple [''a'', ''b''])]\<rparr>,
              body = Some (''''::string)\<rparr>)
       (CalDav ''https://dav.example/cal/'' ''alice'' ''secret'' None)
       ''new.ics'' ''BEGIN:VCALENDAR'' None
     = (Issued \<lparr>target = ''https://dav.example/cal/new.ics'',
                opts = \<lparr>opt_method = ''PUT'', opt_headers = None, opt_proxy = None,
                         opt_body = Some ''BEGIN:VCALENDAR''\<rparr>,
                auth = (''alice'', ''secret'')\<rparr> Returned Pending,
        CalDav ''https://dav.example/cal/'' ''alice'' ''secret'' None)"
  (is "?put1 = (Issued ?r1 Returned Pending, ?c) \<and> ?put2 = (Issued ?r1 Returned Pending, ?c)")
proof -
  obtain k1 p1 where h1: "?put1 = (Issued ?r1 k1 p1, ?c)" and k1: "k1 = Returned"
    by (simp add: put_def put_options_def put_callback_def CalDav_def truthy_number_def)
  obtain k2 p2 where h2: "?put2 = (Issued ?r1 k2 p2, ?c)" and k2: "k2 = Returned"
    by (simp add: put_def put_options_def put_callback_def CalDav_def truthy_number_def)
  from put_never_settles [OF h1, of "\<lparr>statusCode = Some 204, resp_headers = []\<rparr>" 204]
  have "p1 = Pending" by simp
  moreover
  from put_never_settles [OF h2, of "\<lparr>statusCode = Some 200, resp_headers = [(''etag'', Multiple [''a'', ''b''])]\<rparr>" 200]
  have "p2 = Pending" by simp
  ultimately show ?thesis using h1 h2 k1 k2 by simp
qed

subsection \<open>put: the If-Match header\<close>

text \<open>C4, as stated, fails. A PUT that is given the empty string as its etag sends a
  request with no headers at all, so its If-Match header is not the supplied value.\<close>

theorem put_if_match_counterexample:
  "put (\<lambda>ics base. Some (base @ ics))
       (\<lambda>r. \<lparr>error = (None :: string option),
              response = Some \<lparr>statusCode = Some 201,
                                resp_headers = [(''etag'', Single ''abc123'')]\<rparr>,
              body = Some (''''::string)\<rparr>)
       (CalDav ''https://dav.example/cal/'' ''alice'' ''secret'' None)
       ''new.ics'' ''BEGIN:VCALENDAR'' (Some '''')
     = (Issued \<lparr>target = ''https://dav.example/cal/new.ics'',
                opts = \<lparr>opt_method = ''PUT'', opt_headers = None, opt_proxy = None,
                         opt_body = Some ''BEGIN:VCALENDAR''\<rparr>,
                auth = (''alice'', ''secret'')\<rparr> Returned (Resolved ''abc123''),
        CalDav ''https://dav.example/cal/'' ''alice'' ''secret'' None)
   \<and> header \<lparr>target = ''https://dav.example/cal/new.ics'',
               opts = \<lparr>opt_method = ''PUT'', opt_headers = None, opt_proxy = None,
                        opt_body = Some ''BEGIN:VCALENDAR''\<rparr>,
               auth = (''alice'', ''secret'')\<rparr> ''If-Match'' \<noteq> Some ''''"
  by (simp add: put_def put_options_def put_callback_def CalDav_def truthy_number_def
      truthy_string_def resolve_def header_def)

text \<open>C4, amended. For every PUT that sent its request: when no etag argument is
  supplied, the request carries no headers, so no If-Match header; when a non-empty
  etag argument is supplied, the headers of the request are the If-Match header alone,
  and its value is exactly that etag.\<close>

theorem put_if_match:
  assumes "put new_URL request c ics event etag = (Issued r k p, c')"
  shows "(etag = None \<longrightarrow> opt_headers (opts r) = None \<and> header r ''If-Match'' = None)
       \<and> (\<forall>e. etag = Some e \<and> e \<noteq> [] \<longrightarrow>
              opt_headers (opts r) = Some [(''If-Match'', e)] \<and> header r ''If-Match'' = Some e)"
  using put_issued [OF assms]
  by (auto simp: put_options_def header_def truthy_string_def)

text \<open>C4 at a PUT without an etag and at a PUT with the etag \<open>abc123\<close>.\<close>

theorem put_if_match_witness:
  "put (\<lambda>ics base. Some (base @ ics))
       (\<lambda>r. \<lparr>error = (None :: string option),
              response = Some \<lparr>statusCode = Some 201,
                                resp_headers = [(''etag'', Single ''abc123'')]\<rparr>,
              body = Some (''''::string)\<rparr>)
       (CalDav ''https://dav.example/cal/'' ''alice'' ''secret'' None)
       ''new.ics'' ''BEGIN:VCALENDAR'' None
     = (Issued \<lparr>target = ''https://dav.example/cal/new.ics'',
                opts = \<lparr>opt_method = ''PUT'', opt_headers = None, opt_proxy = None,
                         opt_body = Some ''BEGIN:VCALENDAR''\<rparr>,
                auth = (''alice'', ''secret'')\<rparr> Returned (Resolved ''abc123''),
        CalDav ''https://dav.example/cal/'' ''alice'' ''secret'' None)
   \<and> header \<lparr>target = ''https://dav.example/cal/new.ics'',
               opts = \<lparr>opt_method = ''PUT'', opt_headers = None, opt_proxy = None,
                        opt_body = Some ''BEGIN:VCALENDAR''\<rparr>,
               auth = (''alice'', ''secret'')\<rparr> ''If-Match'' = None
   \<and> put (\<lambda>ics base. Some (base @ ics))
       (\<lambda>r. \<lparr>error = (None :: string option),
              response = Some \<lparr>statusCode = Some 204,
                                resp_headers = [(''etag'', Single ''def456'')]\<rparr>,
              body = Some (''''::string)\<rparr>)
       (CalDav ''https://dav.example/cal/'' ''alice'' ''secret'' None)
       ''new.ics'' ''BEGIN:VCALENDAR'' (Some ''abc123'')
     = (Issued \<lparr>target = ''https://dav.example/cal/new.ics'',
                opts = \<lparr>opt_method = ''PUT'', opt_headers = Some [(''If-Match'', ''abc123'')],
                         opt_proxy = None, opt_body = Some ''BEGIN:VCALENDAR''\<rparr>,
                auth = (''alice'', ''secret'')\<rparr> Returned (Resolved ''def456''),
        CalDav ''https://dav.example/cal/'' ''alice'' ''secret'' None)
   \<and> header \<lparr>target = ''https://dav.example/cal/new.ics'',
                opts = \<lparr>opt_method = ''PUT'', opt_headers = Some [(''If-Match'', ''abc123'')],
                         opt_proxy = None, opt_body = Some ''BEGIN:VCALENDAR''\<rparr>,
                auth = (''alice'', ''secret'')\<rparr> ''If-Match'' = Some ''abc123''"
  (is "?put1 = (Issued ?r1 ?k1 ?p1, ?c) \<and> ?h1 \<and> ?put2 = (Issued ?r2 ?k2 ?p2, ?c) \<and> ?h2")
proof -
  have e1: "?put1 = (Issued ?r1 ?k1 ?p1, ?c)"
    by (simp add: put_def put_options_def put_callback_def CalDav_def truthy_number_def
        resolve_def)
  have e2: "?put2 = (Issued ?r2 ?k2 ?p2, ?c)"
    by (simp add: put_def put_options_def put_callback_def CalDav_def truthy_number_def
        truthy_string_def resolve_def)
  from put_if_match [OF e1] have ?h1 by simp
  moreover from put_if_match [OF e2] have ?h2 by simp
  ultimately show ?thesis using e1 e2 by simp
qed

text \<open>C10. A PUT whose etag argument is the empty string sends a request with no
  If-Match header (it has no headers at all), and the call does exactly what the call
  with the etag omitted does: the same request, the same final state of the promise,
  the same instance.\<close>

theorem put_empty_etag:
  assumes "put new_URL request c ics event (Some []) = (Issued r k p, c')"
  shows "opt_headers (opts r) = None \<and> header r ''If-Match'' = None
       \<and> put new_URL request c ics event None = (Issued r k p, c')"
proof -
  have eq: "put_options c event (Some []) = put_options c event None"
    by (simp add: put_options_def truthy_string_def)
  have same: "put new_URL request c ics event None = put new_URL request c ics event (Some [])"
    by (simp add: put_def eq)
  from put_issued [OF assms] have "opts r = put_options c event (Some [])" by simp
  then have "opt_headers (opts r) = None"
    by (simp add: put_options_def truthy_string_def)
  then show ?thesis using same assms by (simp add: header_def)
qed

text \<open>C10 at a PUT through a proxy: the empty etag and the omitted etag give the same
  call.\<close>

theorem put_empty_etag_witness:
  "put (\<lambda>ics base. Some (base @ ics))
       (\<lambda>r. \<lparr>error = (None :: string option),
              response = Some \<lparr>statusCode = Some 204,
                                resp_headers = [(''etag'', Single ''def456'')]\<rparr>,
              body = Some (''''::string)\<rparr>)
       (CalDav ''https://dav.example/cal/'' ''alice'' ''secret'' (Some ''http://proxy:3128''))
       ''old.ics'' ''BEGIN:VCALENDAR'' (Some '''')
     = (Issued \<lparr>target = ''https://dav.example/cal/old.ics'',
                opts = \<lparr>opt_method = ''PUT'', opt_headers = None,
                         opt_proxy = Some ''http://proxy:3128'',
                         opt_body = Some ''BEGIN:VCALENDAR''\<rparr>,
                auth = (''alice'', ''secret'')\<rparr> Returned (Resolved ''def456''),
        CalDav ''https://dav.example/cal/'' ''alice'' ''secret'' (Some ''http://proxy:3128''))
   \<and> put (\<lambda>ics base. Some (base @ ics))
       (\<lambda>r. \<lparr>error = (None :: string option),
              response = Some \<lparr>statusCode = Some 204,
                                resp_headers = [(''etag'', Single ''def456'')]\<rparr>,
              body = Some (''''::string)\<rparr>)
       (CalDav ''https://dav.example/cal/'' ''alice'' ''secret'' (Some ''http://proxy:3128''))
       ''old.ics'' ''BEGIN:VCALENDAR'' None
     = (Issued \<lparr>target = ''https://dav.example/cal/old.ics'',
                opts = \<lparr>opt_method = ''PUT'', opt_headers = None,
                         opt_proxy = Some ''http://proxy:3128'',
                         opt_body = Some ''BEGIN:VCALENDAR''\<rparr>,
                auth = (''alice'', ''secret'')\<rparr> Returned (Resolved ''def456''),
        CalDav ''https://dav.example/cal/'' ''alice'' ''secret'' (Some ''http://proxy:3128''))"
  (is "?put1 = ?res \<and> ?put2 = ?res")
proof -
  have e1: "?put1 = ?res"
    by (simp add: put_def put_options_def put_callback_def CalDav_def truthy_number_def
        truthy_string_def resolve_def)
  from put_empty_etag [OF e1] have "?put2 = ?res" by simp
  with e1 show ?thesis by simp
qed

subsection \<open>The multistatus operations\<close>

text \<open>The final state of the promise of a multistatus callback, by cases of the
  callback's arguments and of the decoder's result.\<close>

lemma multistatus_callback_promise:
  "snd (multistatus_callback xmlToJson a) =
     (case error a of
        Some e \<Rightarrow> Rejected (Cause e)
      | None \<Rightarrow> (case body a of
                   None \<Rightarrow> Pending
                 | Some b \<Rightarrow> (case xmlToJson b of
                               None \<Rightarrow> Pending
                             | Some json \<Rightarrow> Resolved (property json ''multistatus''))))"
  by (simp add: multistatus_callback_def resolve_def reject_def split: option.splits)

lemma multistatus_settled:
  assumes "multistatus_callback xmlToJson a = (k, p)"
  shows "((\<exists>x. p = Rejected x) \<longleftrightarrow> error a \<noteq> None)
       \<and> (\<forall>e. error a = Some e \<longrightarrow> p = Rejected (Cause e))
       \<and> (\<forall>b json. error a = None \<and> body a = Some b \<and> xmlToJson b = Some json \<longrightarrow>
              p = Resolved (property json ''multistatus''))"
proof -
  from assms have "p = snd (multistatus_callback xmlToJson a)" by simp
  then show ?thesis
    unfolding multistatus_callback_promise by (auto split: option.splits)
qed







subsection \<open>The shape of the response field\<close>

text \<open>What the decoder of the specification yields for the children of a multistatus
  element: a decoded element is never a sequence, one element of a name stays as it
  is, and two or more of one name become the sequence of them in document order.\<close>

lemma xml_value_not_array: "xml_value x \<noteq> JArray ws"
  by (cases x) simp_all

lemma add_children_array:
  "foldl (\<lambda>acc kv. add_child (fst kv) (snd kv) acc) [(k, JArray ws)] (map (\<lambda>v. (k, v)) vs)
   = [(k, JArray (ws @ vs))]"
  by (induction vs arbitrary: ws) simp_all

lemma group_children_one: "group_children [(k, v)] = [(k, v)]"
  by (simp add: group_children_def)

lemma group_children_many:
  assumes "\<And>ws. v \<noteq> JArray ws"
  shows "group_children (map (\<lambda>v. (k, v)) (v # w # vs)) = [(k, JArray (v # w # vs))]"
proof (cases v)
  case (JArray ws)
  with assms show ?thesis by blast
next
  case (JString s)
  then show ?thesis
    using add_children_array [of k "[v, w]" vs] by (simp add: group_children_def)
next
  case (JObject kvs)
  then show ?thesis
    using add_children_array [of k "[v, w]" vs] by (simp add: group_children_def)
qed

lemma multistatus_tree:
  "property (xmlToJson_spec (Element ''multistatus'' []
      (map (\<lambda>x. Element ''response'' (fst x) (snd x)) (x # xs)))) ''multistatus''
   = Some (JObject (group_children
       (map (\<lambda>v. (''response'', v))
          (map (\<lambda>x. xml_value (Element ''response'' (fst x) (snd x))) (x # xs)))))"
proof -
  have f: "filter is_element (map (\<lambda>x. Element ''response'' (fst x) (snd x)) ys)
           = map (\<lambda>x. Element ''response'' (fst x) (snd x)) ys" for ys :: "((string \<times> string) list \<times> xml list) list"
    by (induction ys) simp_all
  show ?thesis
    unfolding xmlToJson_spec_def property_def
    by (simp add: f comp_def del: xml_value.simps add: xml_value.simps(2) [of "''multistatus''"])
qed

text \<open>C6, as stated, fails. A principal discovery answered by a multistatus of one
  resource resolves with a MultiStatus whose \<open>response\<close> field is that resource, not
  the one-element sequence of it.\<close>

theorem single_response_counterexample:
  "getCurrentUserPrincipal (\<lambda>doc. Some (xmlToJson_spec doc))
     (\<lambda>r. \<lparr>error = (None :: string option),
            response = Some \<lparr>statusCode = Some 207, resp_headers = []\<rparr>,
            body = Some (Element ''multistatus'' []
                     [Element ''response'' []
                        [Element ''href'' [] [Text ''/principals/alice/'']]])\<rparr>)
     ''https://dav.example/'' ''alice'' ''secret'' None
   = Issued \<lparr>target = ''https://dav.example/'',
              opts = \<lparr>opt_method = ''PROPFIND'',
                       opt_headers = Some [(''Depth'', ''0''), (''Prefer'', ''return-minimal'')],
                       opt_proxy = None, opt_body = Some getCurrentUserPrincipal_xml\<rparr>,
              auth = (''alice'', ''secret'')\<rparr>
        Returned
        (Resolved (Some (JObject [(''response'',
           JObject [(''href'', JString ''/principals/alice/'')])])))
   \<and> JObject [(''response'', JObject [(''href'', JString ''/principals/alice/'')])]
     \<noteq> JObject [(''response'', JArray [JObject [(''href'', JString ''/principals/alice/'')]])]"
  by (simp add: getCurrentUserPrincipal_def multistatus_callback_def resolve_def
      xmlToJson_spec_def group_children_def property_def)

text \<open>C6, amended. For every discovery operation answered, without transport error,
  by a multistatus document of N resources, and with the decoder of the specification:
  if N > 1, the \<open>response\<close> field of the MultiStatus the promise resolves with is the
  sequence of the N decoded resources in the order of the document; if N = 1, it is
  the one decoded resource itself, which is not a sequence. The client returns the
  decoder's \<open>multistatus\<close> node as it is and normalizes nothing.\<close>

theorem multistatus_response_field:
  assumes "getCurrentUserPrincipal (\<lambda>doc. Some (xmlToJson_spec doc)) request u usr pw px
           = Issued r k p
         \<or> getCalendarHomeSet (\<lambda>doc. Some (xmlToJson_spec doc)) request u usr pw px
           = Issued r k p
         \<or> getCalendarComponentSet (\<lambda>doc. Some (xmlToJson_spec doc)) request u usr pw px
           = Issued r k p"
      and "error (request r) = None"
      and "body (request r) = Some (Element ''multistatus'' []
             (map (\<lambda>x. Element ''response'' (fst x) (snd x)) rs))"
  shows "(1 < length rs \<longrightarrow>
            p = Resolved (Some (JObject [(''response'',
                  JArray (map (\<lambda>x. xml_value (Element ''response'' (fst x) (snd x))) rs))])))
       \<and> (\<forall>x. rs = [x] \<longrightarrow>
            p = Resolved (Some (JObject [(''response'',
                  xml_value (Element ''response'' (fst x) (snd x)))]))
            \<and> (\<forall>ws. xml_value (Element ''response'' (fst x) (snd x)) \<noteq> JArray ws))"
proof -
  from assms(1)
  have "multistatus_callback (\<lambda>doc. Some (xmlToJson_spec doc)) (request r) = (k, p)"
    using getCurrentUserPrincipal_issued getCalendarHomeSet_issued
      getCalendarComponentSet_issued
    by metis
  from multistatus_settled [OF this] assms(2,3)
  have p: "p = Resolved (property (xmlToJson_spec (Element ''multistatus'' []
             (map (\<lambda>x. Element ''response'' (fst x) (snd x)) rs))) ''multistatus'')"
    by simp
  have many: "p = Resolved (Some (JObject [(''response'',
                  JArray (map (\<lambda>x. xml_value (Element ''response'' (fst x) (snd x))) rs))]))"
    if "1 < length rs"
  proof -
    from that obtain x y ys where rs: "rs = x # y # ys"
      by (cases rs; cases "tl rs") auto
    let ?f = "\<lambda>x. xml_value (Element ''response'' (fst x) (snd x))"
    have "group_children (map (\<lambda>v. (''response'', v)) (map ?f (x # y # ys)))
          = [(''response'', JArray (map ?f (x # y # ys)))]"
      using group_children_many [of "?f x" "''response''" "?f y" "map ?f ys",
          OF xml_value_not_array]
      by (simp del: xml_value.simps)
    then show ?thesis
      unfolding p rs multistatus_tree by (simp del: xml_value.simps)
  qed
  have one: "p = Resolved (Some (JObject [(''response'',
                  xml_value (Element ''response'' (fst x) (snd x)))]))"
    if "rs = [x]" for x
    unfolding p that multistatus_tree by (simp add: group_children_one del: xml_value.simps)
  show ?thesis using many one xml_value_not_array by blast
qed

text \<open>C6 at a calendar enumeration answered with three resources and at a home-set
  discovery answered with one.\<close>

theorem multistatus_response_field_witness:
  "getCalendarComponentSet (\<lambda>doc. Some (xmlToJson_spec doc))
     (\<lambda>r. \<lparr>error = (None :: string option),
            response = Some \<lparr>statusCode = Some 207, resp_headers = []\<rparr>,
            body = Some (Element ''multistatus'' []
                     [Element ''response'' [] [Element ''href'' [] [Text ''/cal/'']],
                      Element ''response'' [] [Element ''href'' [] [Text ''/cal/work/'']],
                      Element ''response'' [] [Element ''href'' [] [Text ''/cal/home/'']]])\<rparr>)
     ''https://dav.example/cal/'' ''alice'' ''secret'' None
   = Issued \<lparr>target = ''https://dav.example/cal/'',
              opts = \<lparr>opt_method = ''PROPFIND'',
                       opt_headers = Some [(''Depth'', ''1''), (''Prefer'', ''return-minimal'')],
                       opt_proxy = None, opt_body = Some getCalendarComponentSet_xml\<rparr>,
              auth = (''alice'', ''secret'')\<rparr>
        Returned
        (Resolved (Some (JObject [(''response'',
           JArray [JObject [(''href'', JString ''/cal/'')],
                   JObject [(''href'', JString ''/cal/work/'')],
                   JObject [(''href'', JString ''/cal/home/'')]])])))
   \<and> getCalendarHomeSet (\<lambda>doc. Some (xmlToJson_spec doc))
     (\<lambda>r. \<lparr>error = (None :: string option),
            response = Some \<lparr>statusCode = Some 207, resp_headers = []\<rparr>,
            body = Some (Element ''multistatus'' []
                     [Element ''response'' [] [Element ''href'' [] [Text ''/principals/alice/'']]])\<rparr>)
     ''https://dav.example/principals/alice/'' ''alice'' ''secret'' None
   = Issued \<lparr>target = ''https://dav.example/principals/alice/'',
              opts = \<lparr>opt_method = ''PROPFIND'',
                       opt_headers = Some [(''Depth'', ''0''), (''Prefer'', ''return-minimal'')],
                       opt_proxy = None, opt_body = Some getCalendarHomeSet_xml\<rparr>,
              auth = (''alice'', ''secret'')\<rparr>
        Returned
        (Resolved (Some (JObject [(''response'',
           JObject [(''href'', JString ''/principals/alice/'')])])))"
  (is "?op1 = Issued ?r1 Returned ?p1 \<and> ?op2 = Issued ?r2 Returned ?p2")
proof -
  obtain k1 p1 where h1: "?op1 = Issued ?r1 k1 p1" and k1: "k1 = Returned"
    by (simp add: getCalendarComponentSet_def multistatus_callback_def)
  obtain k2 p2 where h2: "?op2 = Issued ?r2 k2 p2" and k2: "k2 = Returned"
    by (simp add: getCalendarHomeSet_def multistatus_callback_def)
  from multistatus_response_field
    [where rs = "[([], [Element ''href'' [] [Text ''/cal/'']]),
                  ([], [Element ''href'' [] [Text ''/cal/work/'']]),
                  ([], [Element ''href'' [] [Text ''/cal/home/'']])]",
      OF disjI2, OF disjI2, OF h1]
  have "p1 = ?p1"
    by (simp add: group_children_def)
  moreover
  from multistatus_response_field
    [where rs = "[([], [Element ''href'' [] [Text ''/principals/alice/'']])]",
      OF disjI2, OF disjI1, OF h2]
  have "p2 = ?p2"
    by (simp add: group_children_def)
  ultimately show ?thesis using h1 h2 k1 k2 by simp
qed

subsection \<open>Request bodies and headers\<close>

text \<open>How \<open>format\<close> moves along a format string: a character other than the percent
  sign is copied, and \<open>%s\<close> takes the next argument.\<close>

lemma format_other:
  "c \<noteq> CHR 0x25 \<Longrightarrow> format (c # cs) args = c # format cs args"
  by (cases cs) simp_all

lemma format_placeholder:
  "format (CHR 0x25 # CHR ''s'' # cs) (a # as) = a @ format cs as"
  by simp

lemma format_end: "format [] [] = []"
  by simp

lemma search_body_format:
  \<open>format search_xml [field, id'] = join_lines
     ['''',
      ''        <c:calendar-query xmlns:d="DAV:" xmlns:c="urn:ietf:params:xml:ns:caldav">'',
      ''          <d:prop>'',
      ''            <d:getetag />'',
      ''            <c:calendar-data />'',
      ''          </d:prop>'',
      ''          <c:filter>'',
      ''            <c:comp-filter name="VCALENDAR">'',
      ''              <c:comp-filter name="VEVENT">'',
      ''                <c:prop-filter name="'' @ field @ ''">'',
      ''                  <c:text-match>'' @ id' @ ''</c:text-match>'',
      ''                </c:prop-filter>'',
      ''              </c:comp-filter>'',
      ''            </c:comp-filter>'',
      ''          </c:filter>'',
      ''        </c:calendar-query>'',
      ''        '']\<close>
  by (simp add: search_xml_def format_other format_placeholder format_end del: format.simps)

text \<open>C5. For every search(field, id), the request is a REPORT whose body is the
  template of lines 189 to 205 with \<open>field\<close> and \<open>id\<close> put in as they are, nothing
  escaped: \<open>field\<close> as the value of the \<open>name\<close> attribute of the \<open>prop-filter\<close> inside
  the \<open>comp-filter\<close> named VEVENT inside the \<open>comp-filter\<close> named VCALENDAR, and \<open>id\<close>
  as the content of the \<open>text-match\<close> inside that \<open>prop-filter\<close>.\<close>

theorem search_body_verbatim:
  \<open>\<exists>r k p. search xmlToJson request c field id' = (Issued r k p, c)
     \<and> opt_method (opts r) = ''REPORT''
     \<and> opt_body (opts r) = Some (join_lines
     ['''',
      ''        <c:calendar-query xmlns:d="DAV:" xmlns:c="urn:ietf:params:xml:ns:caldav">'',
      ''          <d:prop>'',
      ''            <d:getetag />'',
      ''            <c:calendar-data />'',
      ''          </d:prop>'',
      ''          <c:filter>'',
      ''            <c:comp-filter name="VCALENDAR">'',
      ''              <c:comp-filter name="VEVENT">'',
      ''                <c:prop-filter name="'' @ field @ ''">'',
      ''                  <c:text-match>'' @ id' @ ''</c:text-match>'',
      ''                </c:prop-filter>'',
      ''              </c:comp-filter>'',
      ''            </c:comp-filter>'',
      ''          </c:filter>'',
      ''        </c:calendar-query>'',
      ''        ''])\<close>
  unfolding search_body_format [symmetric]
  by (simp add: search_def Let_def split: prod.splits)

text \<open>C8. getCurrentUserPrincipal sends a PROPFIND with Depth 0 whose body is a
  \<open>propfind\<close> in the DAV namespace holding one \<open>prop\<close> element that asks for
  \<open>current-user-principal\<close>; getCalendarHomeSet a PROPFIND with Depth 0 whose
  \<open>propfind\<close> asks for \<open>calendar-home-set\<close>; getCalendarComponentSet a PROPFIND
  with Depth 1 whose \<open>propfind\<close> asks for \<open>resourcetype\<close>, \<open>displayname\<close>,
  \<open>getctag\<close> and \<open>supported-calendar-component-set\<close>; the bodies hold no other
  markup. Each of them, and the REPORT of search, sets the header
  \<open>Prefer: return-minimal\<close>.\<close>

theorem discovery_requests:
  \<open>(\<exists>r k p. getCurrentUserPrincipal xmlToJson request u usr pw px = Issued r k p
      \<and> opt_method (opts r) = ''PROPFIND''
      \<and> header r ''Depth'' = Some ''0''
      \<and> header r ''Prefer'' = Some ''return-minimal''
      \<and> map_option (\<lambda>xml. scan_tags xml None) (opt_body (opts r))
          = Some [''d:propfind xmlns:d="DAV:"'',
                  ''d:prop'',
                  ''d:current-user-principal /'',
                  ''/d:prop'',
                  ''/d:propfind''])
   \<and> (\<exists>r k p. getCalendarHomeSet xmlToJson request u usr pw px = Issued r k p
      \<and> opt_method (opts r) = ''PROPFIND''
      \<and> header r ''Depth'' = Some ''0''
      \<and> header r ''Prefer'' = Some ''return-minimal''
      \<and> map_option (\<lambda>xml. scan_tags xml None) (opt_body (opts r))
          = Some [''d:propfind xmlns:d="DAV:" xmlns:c="urn:ietf:params:xml:ns:caldav"'',
                  ''d:prop'',
                  ''c:calendar-home-set /'',
                  ''/d:prop'',
                  ''/d:propfind''])
   \<and> (\<exists>r k p. getCalendarComponentSet xmlToJson request u usr pw px = Issued r k p
      \<and> opt_method (opts r) = ''PROPFIND''
      \<and> header r ''Depth'' = Some ''1''
      \<and> header r ''Prefer'' = Some ''return-minimal''
      \<and> map_option (\<lambda>xml. scan_tags xml None) (opt_body (opts r))
          = Some [''d:propfind xmlns:d="DAV:" xmlns:cs="http://calendarserver.org/ns/" ''
                    @ ''xmlns:c="urn:ietf:params:xml:ns:caldav"'',
                  ''d:prop'',
                  ''d:resourcetype /'',
                  ''d:displayname /'',
                  ''cs:getctag /'',
                  ''c:supported-calendar-component-set /'',
                  ''/d:prop'',
                  ''/d:propfind''])
   \<and> (\<exists>r k p. search xmlToJson request c field id' = (Issued r k p, c)
      \<and> opt_method (opts r) = ''REPORT''
      \<and> header r ''Depth'' = Some ''1''
      \<and> header r ''Prefer'' = Some ''return-minimal'')\<close>
proof -
  have t1: \<open>scan_tags getCurrentUserPrincipal_xml None
            = [''d:propfind xmlns:d="DAV:"'', ''d:prop'', ''d:current-user-principal /'',
               ''/d:prop'', ''/d:propfind'']\<close>
    by (simp add: getCurrentUserPrincipal_xml_def)
  have t2: \<open>scan_tags getCalendarHomeSet_xml None
            = [''d:propfind xmlns:d="DAV:" xmlns:c="urn:ietf:params:xml:ns:caldav"'',
               ''d:prop'', ''c:calendar-home-set /'', ''/d:prop'', ''/d:propfind'']\<close>
    by (simp add: getCalendarHomeSet_xml_def)
  have t3: \<open>scan_tags getCalendarComponentSet_xml None
            = [''d:propfind xmlns:d="DAV:" xmlns:cs="http://calendarserver.org/ns/" ''
                 @ ''xmlns:c="urn:ietf:params:xml:ns:caldav"'',
               ''d:prop'', ''d:resourcetype /'', ''d:displayname /'', ''cs:getctag /'',
               ''c:supported-calendar-component-set /'', ''/d:prop'', ''/d:propfind'']\<close>
    by (simp add: getCalendarComponentSet_xml_def)
  show ?thesis
    unfolding getCurrentUserPrincipal_def getCalendarHomeSet_def
      getCalendarComponentSet_def search_def Let_def
    by (simp add: header_def t1 t2 t3 split: prod.splits)
qed

subsection \<open>The instance\<close>

text \<open>C9. The instance after a search, a put or a delete is the instance before it,
  whatever the outcome of the call; its four fields are those given to the
  constructor.\<close>

theorem instance_unchanged:
  "snd (search xmlToJson request c field id') = c
   \<and> snd (put new_URL request' c ics event etag) = c
   \<and> snd (delete new_URL xmlToJson request c ics etag') = c
   \<and> url (CalDav u usr pw px) = u \<and> user (CalDav u usr pw px) = usr
   \<and> password (CalDav u usr pw px) = pw \<and> proxy (CalDav u usr pw px) = px"
  by (simp add: search_def put_def delete_def CalDav_def Let_def split: option.splits prod.splits)

end
